theory Spec2Isabelle
  imports Complex_Main
begin

section \<open>NumPy double values, without rounding\<close>

text \<open>
  The framework hands \<open>compute\<close> its inputs as NumPy arrays of shape (1,), so every
  operator of \<open>compute\<close> is NumPy's: a division by zero gives an infinity or NaN (and a
  warning), never \<open>ZeroDivisionError\<close>. A value is a real number or one of the three
  special doubles. Arithmetic on finite values is exact: rounding, overflow and underflow
  of the 64-bit format are left out. Signed zeros are not told apart; a zero divisor counts
  as \<open>+0.0\<close>, which is what \<open>x - x\<close> and its positive multiples give.
\<close>

datatype npfloat = Fin real | PInf | NInf | NaN

fun np_neg :: "npfloat \<Rightarrow> npfloat" where
  "np_neg (Fin a) = Fin (- a)"
| "np_neg PInf = NInf"
| "np_neg NInf = PInf"
| "np_neg NaN = NaN"

fun np_add :: "npfloat \<Rightarrow> npfloat \<Rightarrow> npfloat" where
  "np_add (Fin a) (Fin b) = Fin (a + b)"
| "np_add NaN y = NaN"
| "np_add x NaN = NaN"
| "np_add PInf NInf = NaN"
| "np_add NInf PInf = NaN"
| "np_add PInf y = PInf"
| "np_add x PInf = PInf"
| "np_add NInf y = NInf"
| "np_add x NInf = NInf"

definition np_sub :: "npfloat \<Rightarrow> npfloat \<Rightarrow> npfloat" where
  "np_sub x y = np_add x (np_neg y)"

fun np_mul :: "npfloat \<Rightarrow> npfloat \<Rightarrow> npfloat" where
  "np_mul (Fin a) (Fin b) = Fin (a * b)"
| "np_mul NaN y = NaN"
| "np_mul x NaN = NaN"
| "np_mul PInf (Fin b) = (if b = 0 then NaN else if 0 < b then PInf else NInf)"
| "np_mul NInf (Fin b) = (if b = 0 then NaN else if 0 < b then NInf else PInf)"
| "np_mul (Fin a) PInf = (if a = 0 then NaN else if 0 < a then PInf else NInf)"
| "np_mul (Fin a) NInf = (if a = 0 then NaN else if 0 < a then NInf else PInf)"
| "np_mul PInf PInf = PInf"
| "np_mul NInf NInf = PInf"
| "np_mul PInf NInf = NInf"
| "np_mul NInf PInf = NInf"

fun np_div :: "npfloat \<Rightarrow> npfloat \<Rightarrow> npfloat" where
  "np_div (Fin a) (Fin b) =
     (if b \<noteq> 0 then Fin (a / b)
      else if a = 0 then NaN else if 0 < a then PInf else NInf)"
| "np_div NaN y = NaN"
| "np_div x NaN = NaN"
| "np_div (Fin a) PInf = Fin 0"
| "np_div (Fin a) NInf = Fin 0"
| "np_div PInf (Fin b) = (if 0 \<le> b then PInf else NInf)"
| "np_div NInf (Fin b) = (if 0 \<le> b then NInf else PInf)"
| "np_div PInf PInf = NaN"
| "np_div PInf NInf = NaN"
| "np_div NInf PInf = NaN"
| "np_div NInf NInf = NaN"

text \<open>\<open>x ** n\<close> for a literal exponent \<open>n\<close> (2 and 4 in the source).\<close>

fun np_pow :: "npfloat \<Rightarrow> nat \<Rightarrow> npfloat" where
  "np_pow x 0 = Fin 1"
| "np_pow x (Suc n) = np_mul x (np_pow x n)"

fun np_sqrt :: "npfloat \<Rightarrow> npfloat" where
  "np_sqrt (Fin a) = (if a < 0 then NaN else Fin (sqrt a))"
| "np_sqrt PInf = PInf"
| "np_sqrt NInf = NaN"
| "np_sqrt NaN = NaN"


text \<open>\<open>np.rint\<close>: the nearest integer, a tie going to the even one.\<close>

definition rint :: "real \<Rightarrow> real" where
  "rint x =
     (let f = \<lfloor>x\<rfloor>; d = x - of_int f
      in if d < 1 / 2 then of_int f
         else if 1 / 2 < d then of_int (f + 1)
         else if even f then of_int f else of_int (f + 1))"

fun np_rint :: "npfloat \<Rightarrow> npfloat" where
  "np_rint (Fin a) = Fin (rint a)"
| "np_rint x = x"

text \<open>
  \<open>round(x, ndigits)\<close> on a NumPy double with \<open>ndigits > 0\<close>: scale by
  \<open>10 ** ndigits\<close>, \<open>rint\<close>, scale back.
\<close>

definition round_nd :: "npfloat \<Rightarrow> nat \<Rightarrow> npfloat" where
  "round_nd x ndigits =
     np_div (np_rint (np_mul x (Fin (10 ^ ndigits)))) (Fin (10 ^ ndigits))"

section \<open>Errors\<close>

datatype error = KeyError | IndexError | TypeError

definition thenE :: "error + 'a \<Rightarrow> ('a \<Rightarrow> error + 'b) \<Rightarrow> error + 'b" where
  "thenE r f = (case r of Inl e \<Rightarrow> Inl e | Inr v \<Rightarrow> f v)"

section \<open>The tube component\<close>

text \<open>The four private attributes set by \<open>_TubeComponent.__init__\<close>.\<close>

record TubeComponent =
  priv_axial_force :: npfloat
  priv_bending_moment :: npfloat
  priv_thickness_lower_bound :: npfloat
  priv_safety_margin_lower_bound :: npfloat

definition TubeComponent_init ::
  "npfloat \<Rightarrow> npfloat \<Rightarrow> npfloat \<Rightarrow> npfloat \<Rightarrow> TubeComponent" where
  "TubeComponent_init axial_force bending_moment thickness_lower_bound
       safety_margin_lower_bound =
     \<lparr>priv_axial_force = axial_force,
      priv_bending_moment = bending_moment,
      priv_thickness_lower_bound = thickness_lower_bound,
      priv_safety_margin_lower_bound = safety_margin_lower_bound\<rparr>"

subsection \<open>Registration\<close>

text \<open>
  What the component registers with the framework, in the order of the calls. A bound
  that is not passed is \<open>None\<close>.
\<close>

record Registry =
  reg_inputs :: "(string \<times> npfloat \<times> string) list"
  reg_design_vars :: "(string \<times> npfloat option \<times> npfloat option) list"
  reg_outputs :: "(string \<times> string) list"
  reg_constraints :: "(string \<times> npfloat option \<times> npfloat option) list"
  reg_objectives :: "string list"

definition empty_registry :: Registry where
  "empty_registry =
     \<lparr>reg_inputs = [], reg_design_vars = [], reg_outputs = [],
      reg_constraints = [], reg_objectives = []\<rparr>"

definition add_input :: "string \<Rightarrow> npfloat \<Rightarrow> string \<Rightarrow> Registry \<Rightarrow> Registry" where
  "add_input name val units r = r\<lparr>reg_inputs := reg_inputs r @ [(name, val, units)]\<rparr>"

definition add_design_var ::
  "string \<Rightarrow> npfloat option \<Rightarrow> npfloat option \<Rightarrow> Registry \<Rightarrow> Registry" where
  "add_design_var name lower upper r =
     r\<lparr>reg_design_vars := reg_design_vars r @ [(name, lower, upper)]\<rparr>"

definition add_output :: "string \<Rightarrow> string \<Rightarrow> Registry \<Rightarrow> Registry" where
  "add_output name units r = r\<lparr>reg_outputs := reg_outputs r @ [(name, units)]\<rparr>"

definition add_constraint ::
  "string \<Rightarrow> npfloat option \<Rightarrow> npfloat option \<Rightarrow> Registry \<Rightarrow> Registry" where
  "add_constraint name lower upper r =
     r\<lparr>reg_constraints := reg_constraints r @ [(name, lower, upper)]\<rparr>"

definition add_objective :: "string \<Rightarrow> Registry \<Rightarrow> Registry" where
  "add_objective name r = r\<lparr>reg_objectives := reg_objectives r @ [name]\<rparr>"

definition component_setup :: "TubeComponent \<Rightarrow> Registry \<Rightarrow> Registry" where
  "component_setup self r0 =
     (let r = add_input ''inner_diam'' (Fin 0.060) ''m'' r0;
          r = add_input ''outer_diam'' (Fin 0.100) ''m'' r;
          r = add_design_var ''inner_diam'' (Some (Fin 0.005)) (Some (Fin 0.5)) r;
          r = add_design_var ''outer_diam'' (Some (Fin 0.01)) (Some (Fin 0.6)) r;
          r = add_output ''area'' ''m**2'' r;
          r = add_output ''thickness'' ''m'' r;
          r = add_output ''safety_margins'' ''unitless'' r;
          r = add_output ''diam_over_thickness'' ''unitless'' r;
          r = add_constraint ''thickness''
                (Some (np_div (priv_thickness_lower_bound self) (Fin 1000))) None r;
          r = add_constraint ''safety_margins''
                (Some (priv_safety_margin_lower_bound self)) None r;
          r = add_constraint ''diam_over_thickness'' (Some (Fin 2)) (Some (Fin 25)) r
      in add_objective ''area'' r)"

subsection \<open>compute\<close>

text \<open>The local variables of \<open>compute\<close>, each under its source name.\<close>

record locals =
  area :: npfloat
  thickness :: npfloat
  diam_over_thickness :: npfloat
  moment_of_inertia :: npfloat
  radius :: npfloat
  axial_stress :: npfloat
  bending_stress :: npfloat
  tensile_stress :: npfloat
  tensile_yield :: npfloat
  safety_margin :: npfloat

definition compute_locals :: "TubeComponent \<Rightarrow> npfloat \<Rightarrow> npfloat \<Rightarrow> locals" where
  "compute_locals self inner_diam outer_diam =
     (let area = np_mul (np_mul (Fin 0.25) (Fin pi))
                   (np_sub (np_pow outer_diam 2) (np_pow inner_diam 2));
          thickness = np_div (np_sub outer_diam inner_diam) (Fin 2);
          diam_over_thickness = np_div outer_diam thickness;
          moment_of_inertia =
            np_mul (np_div (Fin pi) (Fin 4))
              (np_sub (np_pow (np_div outer_diam (Fin 2)) 4)
                      (np_pow (np_div inner_diam (Fin 2)) 4));
          radius = np_div outer_diam (Fin 2);
          axial_stress = np_div (priv_axial_force self) area;
          bending_stress =
            np_div (np_mul (priv_bending_moment self) radius) moment_of_inertia;
          tensile_stress =
            np_sqrt (np_add (np_pow (np_add axial_stress bending_stress) 2) (Fin 0.001));
          tensile_yield = Fin 350000000;
          safety_margin = np_sub (np_div tensile_yield tensile_stress) (Fin 1)
      in \<lparr>area = area, thickness = thickness,
          diam_over_thickness = diam_over_thickness,
          moment_of_inertia = moment_of_inertia, radius = radius,
          axial_stress = axial_stress, bending_stress = bending_stress,
          tensile_stress = tensile_stress, tensile_yield = tensile_yield,
          safety_margin = safety_margin\<rparr>)"

text \<open>
  The input and output vectors, keyed by variable name. Reading a name that is not there
  raises \<open>KeyError\<close>; the four assignments at the end update the output vector.
\<close>

type_synonym vector = "string \<rightharpoonup> npfloat"

definition getitem :: "vector \<Rightarrow> string \<Rightarrow> error + npfloat" where
  "getitem v name = (case v name of None \<Rightarrow> Inl KeyError | Some x \<Rightarrow> Inr x)"

definition compute :: "TubeComponent \<Rightarrow> vector \<Rightarrow> vector \<Rightarrow> error + vector" where
  "compute self inputs outputs =
     thenE (getitem inputs ''inner_diam'') (\<lambda>inner_diam.
     thenE (getitem inputs ''outer_diam'') (\<lambda>outer_diam.
       let l = compute_locals self inner_diam outer_diam;
           outputs = outputs(''area'' \<mapsto> area l);
           outputs = outputs(''thickness'' \<mapsto> thickness l);
           outputs = outputs(''safety_margins'' \<mapsto> safety_margin l);
           outputs = outputs(''diam_over_thickness'' \<mapsto> diam_over_thickness l)
       in Inr outputs))"

definition output_names :: "string set" where
  "output_names = {''area'', ''thickness'', ''safety_margins'', ''diam_over_thickness''}"

subsection \<open>The area line in double arithmetic\<close>




section \<open>The optimization wrapper\<close>

record TubeOptimization =
  axial_force :: npfloat
  bending_moment :: npfloat

definition TubeOptimization_init :: "npfloat \<Rightarrow> npfloat \<Rightarrow> TubeOptimization" where
  "TubeOptimization_init axial_force' bending_moment' =
     \<lparr>axial_force = axial_force', bending_moment = bending_moment'\<rparr>"

text \<open>
  The problem object handed to the optimization library: the subsystems added to its
  model, what they registered at set-up, the driver, and whether total derivatives are
  approximated.
\<close>

record Problem =
  subsystems :: "(string \<times> TubeComponent) list"
  registry :: Registry
  driver :: string
  approx_totals :: bool

definition new_Problem :: Problem where
  "new_Problem =
     \<lparr>subsystems = [], registry = empty_registry, driver = ''Driver'',
      approx_totals = False\<rparr>"

definition add_subsystem :: "string \<Rightarrow> TubeComponent \<Rightarrow> Problem \<Rightarrow> Problem" where
  "add_subsystem name sub p = p\<lparr>subsystems := subsystems p @ [(name, sub)]\<rparr>"

definition problem_setup :: "Problem \<Rightarrow> Problem" where
  "problem_setup p =
     p\<lparr>registry :=
         fold (\<lambda>(name, sub) r. component_setup sub r) (subsystems p) empty_registry\<rparr>"

text \<open>
  The library's side of a run is a parameter: \<open>run_driver\<close> gives the failure flag it
  returns and \<open>get_val\<close> as it answers afterwards, an array for a name and a unit.
\<close>

record DriverRun =
  flag :: bool
  get_val :: "string \<Rightarrow> string \<Rightarrow> npfloat list"

definition index0 :: "npfloat list \<Rightarrow> error + npfloat" where
  "index0 a = (case a of [] \<Rightarrow> Inl IndexError | x # _ \<Rightarrow> Inr x)"

definition build_problem :: "TubeOptimization \<Rightarrow> npfloat \<Rightarrow> npfloat \<Rightarrow> Problem" where
  "build_problem self minimim_safety_margin minimum_thickness =
     (let problem = new_Problem;
          problem = add_subsystem ''tube''
                      (TubeComponent_init (axial_force self) (bending_moment self)
                         minimum_thickness minimim_safety_margin) problem;
          problem = problem_setup problem;
          problem = problem\<lparr>driver := ''ScipyOptimizeDriver''\<rparr>
      in problem\<lparr>approx_totals := True\<rparr>)"

definition optimize ::
  "(Problem \<Rightarrow> DriverRun) \<Rightarrow> TubeOptimization \<Rightarrow> npfloat \<Rightarrow> npfloat \<Rightarrow>
     error + (bool \<times> npfloat \<times> npfloat \<times> npfloat \<times> npfloat)" where
  "optimize run_driver self minimim_safety_margin minimum_thickness =
     (let problem = build_problem self minimim_safety_margin minimum_thickness;
          run = run_driver problem
      in thenE (index0 (get_val run ''inner_diam'' ''mm'')) (\<lambda>v1.
         let inner_diam = round_nd v1 3 in
         thenE (index0 (get_val run ''outer_diam'' ''mm'')) (\<lambda>v2.
         let outer_diam = round_nd v2 3 in
         thenE (index0 (get_val run ''thickness'' ''mm'')) (\<lambda>v3.
         let thickness = round_nd v3 3 in
         thenE (index0 (get_val run ''safety_margins'' ''unitless'')) (\<lambda>v4.
         let safety_margins = round_nd v4 4 in
         Inr (\<not> flag run, (inner_diam, outer_diam, thickness, safety_margins)))))))"

subsection \<open>Calling optimize with keyword arguments\<close>

text \<open>
  The parameters of \<open>optimize\<close> after \<open>self\<close>, as the \<open>def\<close> line spells them, with
  their defaults. A call binds positional arguments from the left, then each keyword; a
  keyword that is no parameter, or one already bound, is a \<open>TypeError\<close>.
\<close>

definition optimize_params :: "(string \<times> npfloat) list" where
  "optimize_params = [(''minimim_safety_margin'', Fin 0), (''minimum_thickness'', Fin 1)]"

fun bind_positional :: "string list \<Rightarrow> npfloat list \<Rightarrow> error + (string \<rightharpoonup> npfloat)" where
  "bind_positional ps [] = Inr Map.empty"
| "bind_positional [] (a # as) = Inl TypeError"
| "bind_positional (p # ps) (a # as) =
     thenE (bind_positional ps as) (\<lambda>m. Inr (m(p \<mapsto> a)))"

fun bind_keywords ::
  "string list \<Rightarrow> (string \<rightharpoonup> npfloat) \<Rightarrow> (string \<times> npfloat) list \<Rightarrow>
     error + (string \<rightharpoonup> npfloat)" where
  "bind_keywords ps bound [] = Inr bound"
| "bind_keywords ps bound ((k, v) # kws) =
     (if k \<notin> set ps then Inl TypeError
      else if bound k \<noteq> None then Inl TypeError
      else bind_keywords ps (bound(k \<mapsto> v)) kws)"

definition argument :: "(string \<rightharpoonup> npfloat) \<Rightarrow> string \<times> npfloat \<Rightarrow> npfloat" where
  "argument bound p = (case bound (fst p) of None \<Rightarrow> snd p | Some v \<Rightarrow> v)"

definition optimize_call ::
  "(Problem \<Rightarrow> DriverRun) \<Rightarrow> TubeOptimization \<Rightarrow> npfloat list \<Rightarrow>
     (string \<times> npfloat) list \<Rightarrow>
     error + (bool \<times> npfloat \<times> npfloat \<times> npfloat \<times> npfloat)" where
  "optimize_call run_driver self args kwargs =
     thenE (bind_positional (map fst optimize_params) args) (\<lambda>b0.
     thenE (bind_keywords (map fst optimize_params) b0 kwargs) (\<lambda>b.
       optimize run_driver self
         (argument b (optimize_params ! 0)) (argument b (optimize_params ! 1))))"

subsection \<open>A sample run of the library\<close>

text \<open>
  A run that reports failure and leaves the values below, whatever the problem; it
  exercises the wrapper on a solver that has not converged.
\<close>

definition stalled_run :: "Problem \<Rightarrow> DriverRun" where
  "stalled_run p =
     \<lparr>flag = True,
      get_val = (\<lambda>name units.
        if name = ''inner_diam'' then [Fin 60.0004]
        else if name = ''outer_diam'' then [Fin 100]
        else if name = ''thickness'' then [Fin 19.9998]
        else [Fin 0.73125])\<rparr>"

section \<open>Auxiliary facts\<close>

lemma np_pow_Fin: "np_pow (Fin a) n = Fin (a ^ n)"
  by (induction n) simp_all

lemma sq_diff_pos: "0 < i \<Longrightarrow> i < d \<Longrightarrow> 0 < d\<^sup>2 - i\<^sup>2" for i d :: real
  by (simp add: power_strict_mono)

lemma quartic_diff_pos: "0 < i \<Longrightarrow> i < d \<Longrightarrow> 0 < (d / 2) ^ 4 - (i / 2) ^ 4" for i d :: real
  by (simp add: power_strict_mono)

lemma radicand_pos: "0 < s\<^sup>2 + 1 / 1000" for s :: real
  by (simp add: add_nonneg_pos)

text \<open>
  On a proper tube (\<open>0 < i < d\<close>) with finite loads no divisor is zero, and every local
  of \<open>compute\<close> is the finite value of its formula.
\<close>

lemma locals_tube:
  assumes "0 < i" "i < d"
    and "priv_axial_force self = Fin F" "priv_bending_moment self = Fin M"
  shows "compute_locals self (Fin i) (Fin d) =
    \<lparr>area = Fin (pi / 4 * (d\<^sup>2 - i\<^sup>2)),
     thickness = Fin ((d - i) / 2),
     diam_over_thickness = Fin (d / ((d - i) / 2)),
     moment_of_inertia = Fin (pi / 4 * ((d / 2) ^ 4 - (i / 2) ^ 4)),
     radius = Fin (d / 2),
     axial_stress = Fin (F / (pi / 4 * (d\<^sup>2 - i\<^sup>2))),
     bending_stress = Fin (M * (d / 2) / (pi / 4 * ((d / 2) ^ 4 - (i / 2) ^ 4))),
     tensile_stress = Fin (sqrt ((F / (pi / 4 * (d\<^sup>2 - i\<^sup>2))
          + M * (d / 2) / (pi / 4 * ((d / 2) ^ 4 - (i / 2) ^ 4)))\<^sup>2 + 0.001)),
     tensile_yield = Fin 350000000,
     safety_margin = Fin (350000000 / sqrt ((F / (pi / 4 * (d\<^sup>2 - i\<^sup>2))
          + M * (d / 2) / (pi / 4 * ((d / 2) ^ 4 - (i / 2) ^ 4)))\<^sup>2 + 0.001) - 1)\<rparr>"
proof -
  have a: "d\<^sup>2 - i\<^sup>2 \<noteq> 0" using sq_diff_pos[OF assms(1,2)] by simp
  have q: "(d / 2) ^ 4 - (i / 2) ^ 4 \<noteq> 0" using quartic_diff_pos[OF assms(1,2)] by simp
  have t: "d - i \<noteq> 0" using assms by simp
  let ?s = "F / (pi / 4 * (d\<^sup>2 - i\<^sup>2))
      + M * (d / 2) / (pi / 4 * ((d / 2) ^ 4 - (i / 2) ^ 4))"
  have r: "0 < ?s\<^sup>2 + 1 / 1000" by (rule radicand_pos)
  have r1: "\<not> ?s\<^sup>2 + 1 / 1000 < 0" using r by linarith
  have r2: "sqrt (?s\<^sup>2 + 1 / 1000) \<noteq> 0" using r by simp
  show ?thesis
    unfolding compute_locals_def Let_def np_sub_def
    using a q t r1 r2 assms(3,4)
    by (simp add: np_pow_Fin)
qed

text \<open>With both inputs present \<open>compute\<close> returns, whatever their values.\<close>

lemma compute_outputs:
  assumes "inputs ''inner_diam'' = Some x" "inputs ''outer_diam'' = Some y"
  shows "compute self inputs outputs =
    Inr (outputs(''area'' \<mapsto> area (compute_locals self x y),
                 ''thickness'' \<mapsto> thickness (compute_locals self x y),
                 ''safety_margins'' \<mapsto> safety_margin (compute_locals self x y),
                 ''diam_over_thickness'' \<mapsto> diam_over_thickness (compute_locals self x y)))"
  using assms by (simp add: compute_def getitem_def thenE_def Let_def)

lemma rint_int: "rint x \<in> \<int>"
  by (simp add: rint_def Let_def)

lemma rint_near: "\<bar>rint x - x\<bar> \<le> 1 / 2"
proof -
  have "of_int \<lfloor>x\<rfloor> \<le> x" and "x < of_int \<lfloor>x\<rfloor> + 1" by linarith+
  then show ?thesis by (auto simp: rint_def Let_def)
qed

lemma rint_examples:
  "rint 7312.5 = 7312" "rint 7313.5 = 7314" "rint 60000.4 = 60000" "rint (- 2.5) = - 2"
  by (simp_all add: rint_def Let_def)

lemma round_nd_Fin: "round_nd (Fin v) n = Fin (rint (v * 10 ^ n) / 10 ^ n)"
  by (simp add: round_nd_def)

lemma round_nd_decimal:
  assumes "0 < k"
  shows "rint (v * k) / k * k \<in> \<int> \<and> \<bar>rint (v * k) / k - v\<bar> \<le> 1 / (2 * k)"
proof -
  have "rint (v * k) / k * k = rint (v * k)" using assms by simp
  then have i: "rint (v * k) / k * k \<in> \<int>" by (simp add: rint_int)
  have "rint (v * k) / k - v = (rint (v * k) - v * k) / k"
    using assms by (simp add: field_simps)
  then have "\<bar>rint (v * k) / k - v\<bar> = \<bar>rint (v * k) - v * k\<bar> / k"
    using assms by simp
  also have "\<dots> \<le> (1 / 2) / k"
    using assms rint_near[of "v * k"] by (intro divide_right_mono) simp_all
  finally show ?thesis using i by simp
qed

text \<open>
  When the four arrays read back are not empty, \<open>optimize\<close> returns, and what it returns
  does not depend on the flag except in its first component.
\<close>

lemma optimize_result:
  assumes "get_val (run_driver (build_problem self m t)) ''inner_diam'' ''mm'' = v1 # r1"
    and "get_val (run_driver (build_problem self m t)) ''outer_diam'' ''mm'' = v2 # r2"
    and "get_val (run_driver (build_problem self m t)) ''thickness'' ''mm'' = v3 # r3"
    and "get_val (run_driver (build_problem self m t)) ''safety_margins'' ''unitless'' = v4 # r4"
  shows "optimize run_driver self m t =
    Inr (\<not> flag (run_driver (build_problem self m t)),
         round_nd v1 3, round_nd v2 3, round_nd v3 3, round_nd v4 4)"
  using assms by (simp add: optimize_def Let_def thenE_def index0_def)

lemma stalled_example:
  "optimize stalled_run (TubeOptimization_init (Fin 10000) (Fin 5000)) (Fin 0.05) (Fin 3) =
     Inr (False, Fin 60, Fin 100, Fin 20, Fin 0.7312)"
  by (simp add: optimize_def Let_def thenE_def index0_def stalled_run_def round_nd_def
      rint_def)

text \<open>
  The spelling of the \<open>def\<close> line is accepted as a keyword, and a call without arguments
  takes the defaults 0 and 1.
\<close>

lemma optimize_accepts_minimim_safety_margin:
  "optimize_call run_driver self []
      [(''minimim_safety_margin'', Fin 0.05), (''minimum_thickness'', Fin 3)] =
   optimize run_driver self (Fin 0.05) (Fin 3)"
  by (simp add: optimize_call_def optimize_params_def thenE_def argument_def)

lemma optimize_defaults:
  "optimize_call run_driver self [] [] = optimize run_driver self (Fin 0) (Fin 1)"
  by (simp add: optimize_call_def optimize_params_def thenE_def argument_def)

subsection \<open>Rounding to a double\<close>





























text \<open>
  In the exact arithmetic of \<open>compute_locals\<close> the area is strictly increasing in the
  outer diameter; only the rounding can make two areas equal.
\<close>

lemma area_exact_strictly_increasing:
  assumes "0 < d1" and "d1 < d2"
  shows "area (compute_locals self (Fin i) (Fin d1)) = Fin (pi / 4 * (d1\<^sup>2 - i\<^sup>2))
       \<and> area (compute_locals self (Fin i) (Fin d2)) = Fin (pi / 4 * (d2\<^sup>2 - i\<^sup>2))
       \<and> pi / 4 * (d1\<^sup>2 - i\<^sup>2) < pi / 4 * (d2\<^sup>2 - i\<^sup>2)"
proof -
  have a: "area (compute_locals self (Fin i) (Fin d)) = Fin (pi / 4 * (d\<^sup>2 - i\<^sup>2))" for d
    by (simp add: compute_locals_def Let_def np_sub_def np_pow_Fin)
  have "d1\<^sup>2 < d2\<^sup>2" using assms by (simp add: power_strict_mono)
  then have "pi / 4 * (d1\<^sup>2 - i\<^sup>2) < pi / 4 * (d2\<^sup>2 - i\<^sup>2)" by simp
  then show ?thesis by (simp add: a)
qed

section \<open>Properties of the structural model\<close>

text \<open>
  C1. For a tube with \<open>0 < inner_diam < outer_diam\<close> and any real axial force \<open>F\<close> and
  bending moment \<open>M\<close>, \<open>compute\<close> returns without error and writes exactly
  \<open>area = pi/4 * (d\<^sup>2 - i\<^sup>2)\<close>, \<open>thickness = (d - i)/2\<close>,
  \<open>diam_over_thickness = d / thickness\<close> and
  \<open>safety_margins = 350e6 / sqrt((F/area + M*(d/2)/(pi/4*((d/2)^4 - (i/2)^4)))\<^sup>2 + 0.001) - 1\<close>:
  the combined stress carries the smoothing term 0.001 and the yield strength is the
  constant 350e6.
\<close>

theorem compute_formulas:
  assumes "0 < i" and "i < d"
    and "priv_axial_force self = Fin F" and "priv_bending_moment self = Fin M"
    and "inputs ''inner_diam'' = Some (Fin i)" and "inputs ''outer_diam'' = Some (Fin d)"
  shows "compute self inputs outputs =
    Inr (outputs(''area'' \<mapsto> Fin (pi / 4 * (d\<^sup>2 - i\<^sup>2)),
                 ''thickness'' \<mapsto> Fin ((d - i) / 2),
                 ''safety_margins'' \<mapsto>
                    Fin (350000000 / sqrt ((F / (pi / 4 * (d\<^sup>2 - i\<^sup>2))
                      + M * (d / 2) / (pi / 4 * ((d / 2) ^ 4 - (i / 2) ^ 4)))\<^sup>2 + 0.001) - 1),
                 ''diam_over_thickness'' \<mapsto> Fin (d / ((d - i) / 2))))"
  unfolding compute_outputs[OF assms(5,6)] locals_tube[OF assms(1-4)] by simp

theorem compute_formulas_witness:
  "compute (TubeComponent_init (Fin 10000) (Fin 5000) (Fin 3) (Fin 0.05))
      [''inner_diam'' \<mapsto> Fin 0.06, ''outer_diam'' \<mapsto> Fin 0.1] Map.empty =
    Inr [''area'' \<mapsto> Fin (pi / 4 * (0.1\<^sup>2 - 0.06\<^sup>2)),
         ''thickness'' \<mapsto> Fin ((0.1 - 0.06) / 2),
         ''safety_margins'' \<mapsto>
            Fin (350000000 / sqrt ((10000 / (pi / 4 * (0.1\<^sup>2 - 0.06\<^sup>2))
              + 5000 * (0.1 / 2) / (pi / 4 * ((0.1 / 2) ^ 4 - (0.06 / 2) ^ 4)))\<^sup>2 + 0.001) - 1),
         ''diam_over_thickness'' \<mapsto> Fin (0.1 / ((0.1 - 0.06) / 2))]"
proof -
  let ?c = "TubeComponent_init (Fin 10000) (Fin 5000) (Fin 3) (Fin 0.05)"
  let ?inputs = "[''inner_diam'' \<mapsto> Fin 0.06, ''outer_diam'' \<mapsto> Fin 0.1]"
  have h1: "(0::real) < 0.06" and h2: "(0.06::real) < 0.1" by simp_all
  have h3: "priv_axial_force ?c = Fin 10000" and h4: "priv_bending_moment ?c = Fin 5000"
    by (simp_all add: TubeComponent_init_def)
  have h5: "?inputs ''inner_diam'' = Some (Fin 0.06)"
    and h6: "?inputs ''outer_diam'' = Some (Fin 0.1)"
    by simp_all
  show ?thesis by (rule compute_formulas[OF h1 h2 h3 h4 h5 h6])
qed






text \<open>
  C8. On a proper tube with no load (axial force 0, bending moment 0) the combined
  tensile stress is exactly \<open>sqrt 0.001\<close>, which lies between 0.0316 and 0.0317, and the
  safety margin written is \<open>350e6 / sqrt 0.001 - 1\<close>, which exceeds \<open>10^10\<close>.
\<close>

theorem zero_load_stress:
  assumes "0 < i" and "i < d"
    and "priv_axial_force self = Fin 0" and "priv_bending_moment self = Fin 0"
  shows "tensile_stress (compute_locals self (Fin i) (Fin d)) = Fin (sqrt 0.001)
       \<and> compute self [''inner_diam'' \<mapsto> Fin i, ''outer_diam'' \<mapsto> Fin d] outputs =
           Inr (outputs(''area'' \<mapsto> Fin (pi / 4 * (d\<^sup>2 - i\<^sup>2)),
                 ''thickness'' \<mapsto> Fin ((d - i) / 2),
                 ''safety_margins'' \<mapsto> Fin (350000000 / sqrt 0.001 - 1),
                 ''diam_over_thickness'' \<mapsto> Fin (d / ((d - i) / 2))))
       \<and> 0.0316 < sqrt 0.001 \<and> sqrt 0.001 < 0.0317
       \<and> 10000000000 < 350000000 / sqrt 0.001 - 1"
proof -
  have lo: "0.0316 < sqrt 0.001"
    by (rule real_less_rsqrt) (simp add: power2_eq_square)
  have hi: "sqrt 0.001 < 0.0317"
    by (rule real_less_lsqrt) (simp_all add: power2_eq_square)
  have pos: "0 < sqrt 0.001" by simp
  have "10000000001 * sqrt 0.001 < 10000000001 * 0.0317" using hi by simp
  also have "\<dots> < 350000000" by simp
  finally have "10000000001 < 350000000 / sqrt 0.001"
    using pos by (simp add: pos_less_divide_eq)
  then have big: "10000000000 < 350000000 / sqrt 0.001 - 1" by simp
  show ?thesis
    using lo hi big
    by (simp add: compute_outputs locals_tube[OF assms])
qed

theorem zero_load_stress_witness:
  "tensile_stress (compute_locals (TubeComponent_init (Fin 0) (Fin 0) (Fin 1) (Fin 0))
      (Fin 0.06) (Fin 0.1)) = Fin (sqrt 0.001)
   \<and> compute (TubeComponent_init (Fin 0) (Fin 0) (Fin 1) (Fin 0))
       [''inner_diam'' \<mapsto> Fin 0.06, ''outer_diam'' \<mapsto> Fin 0.1] Map.empty =
       Inr [''area'' \<mapsto> Fin (pi / 4 * (0.1\<^sup>2 - 0.06\<^sup>2)),
            ''thickness'' \<mapsto> Fin ((0.1 - 0.06) / 2),
            ''safety_margins'' \<mapsto> Fin (350000000 / sqrt 0.001 - 1),
            ''diam_over_thickness'' \<mapsto> Fin (0.1 / ((0.1 - 0.06) / 2))]"
proof -
  let ?c = "TubeComponent_init (Fin 0) (Fin 0) (Fin 1) (Fin 0)"
  have h1: "(0::real) < 0.06" and h2: "(0.06::real) < 0.1" by simp_all
  have h3: "priv_axial_force ?c = Fin 0" and h4: "priv_bending_moment ?c = Fin 0"
    by (simp_all add: TubeComponent_init_def)
  from zero_load_stress[OF h1 h2 h3 h4, of Map.empty] show ?thesis by blast
qed

text \<open>
  C9. \<open>compute\<close> is a function of the two diameters and the two loads alone: two
  evaluations that agree on \<open>inner_diam\<close>, \<open>outer_diam\<close>, the axial force and the bending
  moment give the same result (the same error, or the same four outputs), whatever else
  the component, the input vector and the output vector hold.
\<close>

theorem compute_deterministic:
  assumes "priv_axial_force c1 = priv_axial_force c2"
    and "priv_bending_moment c1 = priv_bending_moment c2"
    and "in1 ''inner_diam'' = in2 ''inner_diam''"
    and "in1 ''outer_diam'' = in2 ''outer_diam''"
  shows "map_sum id (\<lambda>v. v |` output_names) (compute c1 in1 out1) =
         map_sum id (\<lambda>v. v |` output_names) (compute c2 in2 out2)"
proof -
  have l: "compute_locals c1 x y = compute_locals c2 x y" for x y
    by (simp add: compute_locals_def assms(1,2))
  have "(outs1(''area'' \<mapsto> p, ''thickness'' \<mapsto> q, ''safety_margins'' \<mapsto> r,
            ''diam_over_thickness'' \<mapsto> s)) |` output_names =
        (outs2(''area'' \<mapsto> p, ''thickness'' \<mapsto> q, ''safety_margins'' \<mapsto> r,
            ''diam_over_thickness'' \<mapsto> s)) |` output_names"
    for outs1 outs2 :: vector and p q r s
    by (rule ext) (simp add: restrict_map_def output_names_def)
  then show ?thesis
    using assms(3,4)
    by (simp add: compute_def getitem_def thenE_def Let_def l split: option.splits)
qed

theorem compute_deterministic_witness:
  "map_sum id (\<lambda>v. v |` output_names)
     (compute (TubeComponent_init (Fin 10000) (Fin 5000) (Fin 3) (Fin 0.05))
        [''inner_diam'' \<mapsto> Fin 0.06, ''outer_diam'' \<mapsto> Fin 0.1] Map.empty) =
   map_sum id (\<lambda>v. v |` output_names)
     (compute (TubeComponent_init (Fin 10000) (Fin 5000) (Fin 1) (Fin 0))
        [''outer_diam'' \<mapsto> Fin 0.1, ''inner_diam'' \<mapsto> Fin 0.06, ''spare'' \<mapsto> NaN]
        [''area'' \<mapsto> Fin 7, ''stale'' \<mapsto> Fin 1])"
  by (rule compute_deterministic) (simp_all add: TubeComponent_init_def)

text \<open>
  C10. Whenever the axial stress and the bending stress of an evaluation are finite,
  the combined tensile stress is finite and at least \<open>sqrt 0.001 > 0\<close>, so the division
  that defines the safety margin has a nonzero divisor, and the safety margin written is
  finite and at most \<open>350e6 / sqrt 0.001 - 1\<close>.
\<close>

theorem safety_margin_bounded:
  assumes "inputs ''inner_diam'' = Some x" and "inputs ''outer_diam'' = Some y"
    and "axial_stress (compute_locals self x y) = Fin a"
    and "bending_stress (compute_locals self x y) = Fin b"
  shows "tensile_stress (compute_locals self x y) = Fin (sqrt ((a + b)\<^sup>2 + 0.001))
       \<and> sqrt 0.001 \<le> sqrt ((a + b)\<^sup>2 + 0.001) \<and> 0 < sqrt (0.001::real)
       \<and> (\<exists>outs. compute self inputs outputs = Inr outs
            \<and> outs ''safety_margins'' = Some (Fin (350000000 / sqrt ((a + b)\<^sup>2 + 0.001) - 1)))
       \<and> 350000000 / sqrt ((a + b)\<^sup>2 + 0.001) - 1 \<le> 350000000 / sqrt 0.001 - 1"
proof -
  let ?l = "compute_locals self x y"
  have r: "0 < (a + b)\<^sup>2 + 1 / 1000" by (rule radicand_pos)
  have ts: "tensile_stress ?l =
      np_sqrt (np_add (np_pow (np_add (axial_stress ?l) (bending_stress ?l)) 2) (Fin 0.001))"
    by (simp add: compute_locals_def Let_def)
  have sm: "safety_margin ?l = np_sub (np_div (Fin 350000000) (tensile_stress ?l)) (Fin 1)"
    by (simp add: compute_locals_def Let_def)
  have ts': "tensile_stress ?l = Fin (sqrt ((a + b)\<^sup>2 + 0.001))"
    using r unfolding ts assms(3,4) by (simp add: np_pow_Fin)
  have nz: "sqrt ((a + b)\<^sup>2 + 1 / 1000) \<noteq> 0" using r by simp
  have sm': "safety_margin ?l = Fin (350000000 / sqrt ((a + b)\<^sup>2 + 0.001) - 1)"
    unfolding sm ts' using nz by (simp add: np_sub_def)
  have le: "sqrt 0.001 \<le> sqrt ((a + b)\<^sup>2 + 0.001)" by simp
  have pos: "0 < sqrt (0.001::real)" by simp
  have "350000000 / sqrt ((a + b)\<^sup>2 + 0.001) \<le> 350000000 / sqrt 0.001"
    using le pos by (intro frac_le) simp_all
  then have ub: "350000000 / sqrt ((a + b)\<^sup>2 + 0.001) - 1 \<le> 350000000 / sqrt 0.001 - 1"
    by simp
  show ?thesis
    using ts' le pos ub by (simp add: compute_outputs[OF assms(1,2)] sm')
qed

theorem safety_margin_bounded_witness:
  "tensile_stress (compute_locals (TubeComponent_init (Fin 0) (Fin 0) (Fin 1) (Fin 0))
      (Fin 0.06) (Fin 0.1)) = Fin (sqrt ((0 + 0)\<^sup>2 + 0.001))
   \<and> (\<exists>outs. compute (TubeComponent_init (Fin 0) (Fin 0) (Fin 1) (Fin 0))
          [''inner_diam'' \<mapsto> Fin 0.06, ''outer_diam'' \<mapsto> Fin 0.1] Map.empty = Inr outs
        \<and> outs ''safety_margins'' = Some (Fin (350000000 / sqrt ((0 + 0)\<^sup>2 + 0.001) - 1)))
   \<and> 350000000 / sqrt ((0 + 0)\<^sup>2 + 0.001) - 1 \<le> 350000000 / sqrt (0.001::real) - 1"
proof -
  let ?c = "TubeComponent_init (Fin 0) (Fin 0) (Fin 1) (Fin 0)"
  let ?inputs = "[''inner_diam'' \<mapsto> Fin 0.06, ''outer_diam'' \<mapsto> Fin 0.1]"
  have h1: "?inputs ''inner_diam'' = Some (Fin 0.06)"
    and h2: "?inputs ''outer_diam'' = Some (Fin 0.1)" by simp_all
  have k1: "(0::real) < 0.06" and k2: "(0.06::real) < 0.1" by simp_all
  have k3: "priv_axial_force ?c = Fin 0" and k4: "priv_bending_moment ?c = Fin 0"
    by (simp_all add: TubeComponent_init_def)
  have h3: "axial_stress (compute_locals ?c (Fin 0.06) (Fin 0.1)) = Fin 0"
    and h4: "bending_stress (compute_locals ?c (Fin 0.06) (Fin 0.1)) = Fin 0"
    unfolding locals_tube[OF k1 k2 k3 k4] by simp_all
  from safety_margin_bounded[OF h1 h2 h3 h4, of Map.empty] show ?thesis by blast
qed

section \<open>Properties of the optimization wrapper\<close>

text \<open>
  C2. The first component of what \<open>optimize\<close> returns is true exactly when the library
  reports no failure. A failed run raises nothing: the result is still returned, its
  numbers are the rounded values read back from the problem, and the boolean is false.
  The four arrays read back are taken to be non-empty, as those of scalar variables are.
\<close>

theorem optimize_reports_flag:
  assumes "get_val (run_driver (build_problem self m t)) ''inner_diam'' ''mm'' = v1 # r1"
    and "get_val (run_driver (build_problem self m t)) ''outer_diam'' ''mm'' = v2 # r2"
    and "get_val (run_driver (build_problem self m t)) ''thickness'' ''mm'' = v3 # r3"
    and "get_val (run_driver (build_problem self m t)) ''safety_margins'' ''unitless'' = v4 # r4"
  shows "\<exists>converged. optimize run_driver self m t =
           Inr (converged, round_nd v1 3, round_nd v2 3, round_nd v3 3, round_nd v4 4)
         \<and> (converged \<longleftrightarrow> \<not> flag (run_driver (build_problem self m t)))"
  unfolding optimize_result[of run_driver self m t, OF assms] by simp

theorem optimize_reports_flag_witness:
  "\<exists>converged.
     optimize stalled_run (TubeOptimization_init (Fin 10000) (Fin 5000)) (Fin 0.05) (Fin 3) =
       Inr (converged, round_nd (Fin 60.0004) 3, round_nd (Fin 100) 3,
            round_nd (Fin 19.9998) 3, round_nd (Fin 0.73125) 4)
     \<and> (converged \<longleftrightarrow> \<not> flag (stalled_run (build_problem
            (TubeOptimization_init (Fin 10000) (Fin 5000)) (Fin 0.05) (Fin 3))))"
  by (rule optimize_reports_flag[of stalled_run _ _ _ _ "[]" _ "[]" _ "[]" _ "[]"])
     (simp_all add: stalled_run_def)

text \<open>
  C3. For minimum thickness \<open>t\<close> (mm) and minimum safety margin \<open>m\<close>, the problem that
  \<open>optimize\<close> hands to the driver has the design variables \<open>inner_diam\<close> in [0.005, 0.5]
  and \<open>outer_diam\<close> in [0.01, 0.6], exactly three constraints (\<open>thickness \<ge> t/1000\<close>,
  \<open>safety_margins \<ge> m\<close>, \<open>diam_over_thickness\<close> in [2, 25]), the objective \<open>area\<close>, and
  the initial values \<open>inner_diam = 0.060\<close>, \<open>outer_diam = 0.100\<close>, in which the loads do
  not occur.
\<close>

theorem optimize_problem_registered:
  "build_problem self m (Fin t) =
    \<lparr>subsystems =
       [(''tube'', TubeComponent_init (axial_force self) (bending_moment self) (Fin t) m)],
     registry =
       \<lparr>reg_inputs = [(''inner_diam'', Fin 0.060, ''m''), (''outer_diam'', Fin 0.100, ''m'')],
        reg_design_vars =
          [(''inner_diam'', Some (Fin 0.005), Some (Fin 0.5)),
           (''outer_diam'', Some (Fin 0.01), Some (Fin 0.6))],
        reg_outputs =
          [(''area'', ''m**2''), (''thickness'', ''m''),
           (''safety_margins'', ''unitless''), (''diam_over_thickness'', ''unitless'')],
        reg_constraints =
          [(''thickness'', Some (Fin (t / 1000)), None),
           (''safety_margins'', Some m, None),
           (''diam_over_thickness'', Some (Fin 2), Some (Fin 25))],
        reg_objectives = [''area'']\<rparr>,
     driver = ''ScipyOptimizeDriver'',
     approx_totals = True\<rparr>"
  by (simp add: build_problem_def new_Problem_def add_subsystem_def problem_setup_def
      component_setup_def empty_registry_def add_input_def add_design_var_def add_output_def
      add_constraint_def add_objective_def TubeComponent_init_def Let_def)

text \<open>
  C4. \<open>optimize\<close> is to take the keyword arguments \<open>minimum_safety_margin\<close> (default
  0) and \<open>minimum_thickness\<close> (default 1). The \<open>def\<close> line spells the first parameter
  \<open>minimim_safety_margin\<close>, so a call that passes \<open>minimum_safety_margin=0.05\<close> by keyword
  is rejected with \<open>TypeError\<close> before the body runs.
\<close>

theorem optimize_rejects_minimum_safety_margin:
  "optimize_call run_driver self [] [(''minimum_safety_margin'', Fin 0.05)] = Inl TypeError"
  by (simp add: optimize_call_def optimize_params_def thenE_def)

text \<open>
  C6. The three lengths \<open>optimize\<close> returns are the values read back in millimetres,
  rounded to 3 decimal places: each is a whole number of thousandths and lies within
  half a thousandth of the value read. The safety margin returned is the value read,
  rounded to 4 decimal places in the same sense.
\<close>

theorem optimize_rounding:
  assumes "get_val (run_driver (build_problem self m t)) ''inner_diam'' ''mm'' = Fin v1 # r1"
    and "get_val (run_driver (build_problem self m t)) ''outer_diam'' ''mm'' = Fin v2 # r2"
    and "get_val (run_driver (build_problem self m t)) ''thickness'' ''mm'' = Fin v3 # r3"
    and "get_val (run_driver (build_problem self m t)) ''safety_margins'' ''unitless'' =
           Fin v4 # r4"
  shows "\<exists>a b c s. optimize run_driver self m t =
           Inr (\<not> flag (run_driver (build_problem self m t)), Fin a, Fin b, Fin c, Fin s)
       \<and> a * 1000 \<in> \<int> \<and> \<bar>a - v1\<bar> \<le> 1 / 2000
       \<and> b * 1000 \<in> \<int> \<and> \<bar>b - v2\<bar> \<le> 1 / 2000
       \<and> c * 1000 \<in> \<int> \<and> \<bar>c - v3\<bar> \<le> 1 / 2000
       \<and> s * 10000 \<in> \<int> \<and> \<bar>s - v4\<bar> \<le> 1 / 20000"
proof -
  have k3: "rint (v * 1000) / 1000 * 1000 \<in> \<int>
      \<and> \<bar>rint (v * 1000) / 1000 - v\<bar> \<le> 1 / 2000" for v
    using round_nd_decimal[of 1000 v] by simp
  have k4: "rint (v * 10000) / 10000 * 10000 \<in> \<int>
      \<and> \<bar>rint (v * 10000) / 10000 - v\<bar> \<le> 1 / 20000" for v
    using round_nd_decimal[of 10000 v] by simp
  have "optimize run_driver self m t =
      Inr (\<not> flag (run_driver (build_problem self m t)),
           Fin (rint (v1 * 1000) / 1000), Fin (rint (v2 * 1000) / 1000),
           Fin (rint (v3 * 1000) / 1000), Fin (rint (v4 * 10000) / 10000))"
    unfolding optimize_result[of run_driver self m t, OF assms] by (simp add: round_nd_Fin)
  then show ?thesis
    using k3[of v1] k3[of v2] k3[of v3] k4[of v4] by blast
qed

theorem optimize_rounding_witness:
  "\<exists>a b c s.
     optimize stalled_run (TubeOptimization_init (Fin 10000) (Fin 5000)) (Fin 0.05) (Fin 3) =
       Inr (\<not> flag (stalled_run (build_problem
              (TubeOptimization_init (Fin 10000) (Fin 5000)) (Fin 0.05) (Fin 3))),
            Fin a, Fin b, Fin c, Fin s)
     \<and> a * 1000 \<in> \<int> \<and> \<bar>a - 60.0004\<bar> \<le> 1 / 2000
     \<and> b * 1000 \<in> \<int> \<and> \<bar>b - 100\<bar> \<le> 1 / 2000
     \<and> c * 1000 \<in> \<int> \<and> \<bar>c - 19.9998\<bar> \<le> 1 / 2000
     \<and> s * 10000 \<in> \<int> \<and> \<bar>s - 0.73125\<bar> \<le> 1 / 20000"
  by (rule optimize_rounding[of stalled_run _ _ _ _ "[]" _ "[]" _ "[]" _ "[]"])
     (simp_all add: stalled_run_def)

end
